theory Spec2Isabelle
  imports Complex_Main "HOL-Library.Word" "HOL-Library.Multiset"
begin

section \<open>Values shared by the whole program\<close>

text \<open>
  Python \<open>bytes\<close> are lists of 8-bit words. A Python \<open>str\<close> is kept as the list of the
  bytes of its UTF-8 encoding (an Isabelle \<open>string\<close>); no function of \<open>web.py\<close> looks at
  the length of a string or at a single code point.
\<close>

type_synonym byte = "8 word"
type_synonym bytes = "byte list"

text \<open>The exceptions that the modelled paths of \<open>web.py\<close> can raise.\<close>

datatype exn =
    UnicodeDecodeError
  | ConnectionResetError
  | TypeError
  | IntegrityError
  | JSONDecodeError
  | ValueError

text \<open>
  What \<open>json.dumps\<close> is applied to. The serialised text sent to a viewer is represented by
  the value it serialises; Python floats are the rationals they denote.
\<close>

datatype json =
    JNull
  | JBool bool
  | JNum rat
  | JStr string
  | JList "json list"
  | JDict "(string \<times> json) list"

section \<open>Viewer sessions and the fan-out hub\<close>

text \<open>
  A \<open>web.WebSocketResponse\<close>: the frames it has been sent so far, and whether its transport
  is closing. \<open>send_str\<close> on a closing transport raises \<open>ConnectionResetError\<close>.
\<close>

record session =
  inbox :: "json list"
  closing :: bool

definition send_str :: "session \<Rightarrow> json \<Rightarrow> exn + session" where
  "send_str s data =
     (if closing s then Inl ConnectionResetError
      else Inr (s\<lparr>inbox := inbox s @ [data]\<rparr>))"

text \<open>
  Session objects live in a store indexed by object identity; \<open>self.websocket_clients\<close> is the
  list of the identities registered, in registration order.
\<close>

type_synonym sid = nat
type_synonym store = "sid \<Rightarrow> session"

text \<open>
  The loop of \<open>websocket_broadcast\<close>:
  \<^verbatim>\<open>for websocket_client in self.websocket_clients: await websocket_client.send_str(data)\<close>.
  There is no handler around \<open>send_str\<close>: the first exception ends the loop and is the
  outcome of the call.
\<close>

fun send_each :: "sid list \<Rightarrow> json \<Rightarrow> store \<Rightarrow> store \<times> exn option" where
  "send_each [] data \<sigma> = (\<sigma>, None)"
| "send_each (c # cs) data \<sigma> =
     (case send_str (\<sigma> c) data of
        Inl e \<Rightarrow> (\<sigma>, Some e)
      | Inr s \<Rightarrow> send_each cs data (\<sigma>(c := s)))"

section \<open>Bytes and text\<close>

text \<open>
  \<open>bytes.decode("utf-8")\<close> (strict): the well-formed byte sequences of UTF-8. A lead byte
  \<open>0x00..0x7F\<close> stands alone; \<open>0xC2..0xDF\<close> takes one continuation byte; \<open>0xE0..0xEF\<close>
  two, where \<open>0xE0\<close> excludes overlong forms and \<open>0xED\<close> the surrogates; \<open>0xF0..0xF4\<close>
  three, where \<open>0xF0\<close> excludes overlong forms and \<open>0xF4\<close> code points above \<open>U+10FFFF\<close>.
  Every other byte in lead position raises \<open>UnicodeDecodeError\<close>.
\<close>

definition cont :: "byte \<Rightarrow> bool" where
  "cont b = (0x80 \<le> b \<and> b \<le> 0xBF)"

fun utf8_valid :: "bytes \<Rightarrow> bool" where
  "utf8_valid [] = True"
| "utf8_valid (b # bs) =
     (if b < 0x80 then utf8_valid bs
      else if 0xC2 \<le> b \<and> b \<le> 0xDF then
        (case bs of c1 # r \<Rightarrow> cont c1 \<and> utf8_valid r | _ \<Rightarrow> False)
      else if b = 0xE0 then
        (case bs of c1 # c2 # r \<Rightarrow> 0xA0 \<le> c1 \<and> c1 \<le> 0xBF \<and> cont c2 \<and> utf8_valid r
         | _ \<Rightarrow> False)
      else if b = 0xED then
        (case bs of c1 # c2 # r \<Rightarrow> 0x80 \<le> c1 \<and> c1 \<le> 0x9F \<and> cont c2 \<and> utf8_valid r
         | _ \<Rightarrow> False)
      else if 0xE1 \<le> b \<and> b \<le> 0xEF then
        (case bs of c1 # c2 # r \<Rightarrow> cont c1 \<and> cont c2 \<and> utf8_valid r | _ \<Rightarrow> False)
      else if b = 0xF0 then
        (case bs of c1 # c2 # c3 # r \<Rightarrow>
           0x90 \<le> c1 \<and> c1 \<le> 0xBF \<and> cont c2 \<and> cont c3 \<and> utf8_valid r
         | _ \<Rightarrow> False)
      else if 0xF1 \<le> b \<and> b \<le> 0xF3 then
        (case bs of c1 # c2 # c3 # r \<Rightarrow> cont c1 \<and> cont c2 \<and> cont c3 \<and> utf8_valid r
         | _ \<Rightarrow> False)
      else if b = 0xF4 then
        (case bs of c1 # c2 # c3 # r \<Rightarrow>
           0x80 \<le> c1 \<and> c1 \<le> 0x8F \<and> cont c2 \<and> cont c3 \<and> utf8_valid r
         | _ \<Rightarrow> False)
      else False)"

definition decode_utf8 :: "bytes \<Rightarrow> exn + string" where
  "decode_utf8 bs =
     (if utf8_valid bs then Inr (map (\<lambda>b. char_of (unat b)) bs) else Inl UnicodeDecodeError)"

text \<open>\<open>bytes.hex()\<close>: two lower-case hexadecimal digits for each byte.\<close>

definition hex_digit :: "nat \<Rightarrow> char" where
  "hex_digit n = ''0123456789abcdef'' ! (n mod 16)"

definition hex :: "bytes \<Rightarrow> string" where
  "hex bs = concat (map (\<lambda>b. [hex_digit (unat b div 16), hex_digit (unat b)]) bs)"

text \<open>\<open>base64.b64encode(...).decode("utf-8")\<close>: the standard alphabet, padded with \<open>=\<close>.\<close>

definition b64_digit :: "nat \<Rightarrow> char" where
  "b64_digit n =
     ''ABCDEFGHIJKLMNOPQRSTUVWXYZabcdefghijklmnopqrstuvwxyz0123456789+/'' ! (n mod 64)"

fun b64encode :: "bytes \<Rightarrow> string" where
  "b64encode [] = []"
| "b64encode [a] =
     [b64_digit (unat a div 4), b64_digit (unat a mod 4 * 16), CHR ''='', CHR ''='']"
| "b64encode [a, b] =
     [b64_digit (unat a div 4), b64_digit (unat a mod 4 * 16 + unat b div 16),
      b64_digit (unat b mod 16 * 4), CHR ''='']"
| "b64encode (a # b # c # r) =
     [b64_digit (unat a div 4), b64_digit (unat a mod 4 * 16 + unat b div 16),
      b64_digit (unat b mod 16 * 4 + unat c div 64), b64_digit (unat c)] @ b64encode r"

section \<open>Floating point\<close>

text \<open>
  A finite Python float is the rational it denotes. \<open>fl\<close> rounds a rational to the nearest
  binary64 value, ties to the even significand: 53 significant bits, and a spacing of
  \<open>2^-1074\<close> in the subnormal range. Values beyond the largest finite float (which round to
  infinity) do not occur: a progress lies between 0 and 1.
\<close>

definition rhe :: "rat \<Rightarrow> int" where
  "rhe x =
     (let f = \<lfloor>x\<rfloor>; d = x - of_int f
      in if d < 1 / 2 then f else if 1 / 2 < d then f + 1 else if even f then f else f + 1)"

text \<open>\<open>int.bit_length()\<close> of a non-negative integer.\<close>

function bit_length :: "int \<Rightarrow> int" where
  "bit_length n = (if n \<le> 0 then 0 else 1 + bit_length (n div 2))"
  by pat_completeness auto
termination
  by (relation "measure nat") auto

definition pow2 :: "int \<Rightarrow> rat" where
  "pow2 e = (if 0 \<le> e then 2 ^ nat e else 1 / 2 ^ nat (- e))"

definition exponent :: "rat \<Rightarrow> int" where
  "exponent x =
     (let (n, d) = quotient_of \<bar>x\<bar>;
          c = bit_length n - bit_length d
      in if pow2 c \<le> \<bar>x\<bar> then c else c - 1)"

definition fl :: "rat \<Rightarrow> rat" where
  "fl x =
     (if x = 0 then 0
      else let q = max (exponent x - 52) (- 1074) in of_int (rhe (x / pow2 q)) * pow2 q)"

text \<open>Float multiplication: the exact product, rounded.\<close>

definition fmul :: "rat \<Rightarrow> rat \<Rightarrow> rat" where
  "fmul x y = fl (x * y)"

text \<open>
  \<open>round(x, 2)\<close> on a float: the exact value of \<open>x\<close> is rounded to two decimals, ties to the
  even last digit, and the decimal obtained is converted back to the nearest float.
\<close>

definition round2 :: "rat \<Rightarrow> rat" where
  "round2 x = fl (of_int (rhe (x * 100)) / 100)"

section \<open>LXMF messages and their wire shape\<close>

text \<open>
  An \<open>LXMF.LXMessage\<close>, as far as \<open>web.py\<close> reads it. The state constants of the library
  are the constructors of \<open>message_state\<close>; any other value of the attribute is \<open>OTHER\<close>.
  A field is keyed by its type; the value of an attachment field is a list of (name, bytes)
  pairs, the value of an image field one (type, bytes) pair. Fields arrive from the remote
  peer, so a value need not have the shape its key promises.
\<close>

datatype message_state = DRAFT | OUTBOUND | SENDING | SENT | DELIVERED | FAILED | OTHER nat

datatype field_type = FIELD_FILE_ATTACHMENTS | FIELD_IMAGE | FIELD_OTHER nat

datatype field_value =
    Attachments "(string \<times> bytes) list"
  | Image string bytes
  | Opaque

record lxmessage =
  lxm_hash :: bytes
  lxm_source_hash :: bytes
  lxm_destination_hash :: bytes
  lxm_incoming :: bool
  lxm_state :: message_state
  lxm_progress :: rat
  lxm_title :: bytes
  lxm_content :: bytes
  lxm_fields :: "(field_type \<times> field_value) list"
  lxm_timestamp :: rat

fun convert_lxmf_state_to_string :: "lxmessage \<Rightarrow> string" where
  "convert_lxmf_state_to_string m =
     (case lxm_state m of
        DRAFT \<Rightarrow> ''draft''
      | OUTBOUND \<Rightarrow> ''outbound''
      | SENDING \<Rightarrow> ''sending''
      | SENT \<Rightarrow> ''sent''
      | DELIVERED \<Rightarrow> ''delivered''
      | FAILED \<Rightarrow> ''failed''
      | OTHER _ \<Rightarrow> ''unknown'')"

text \<open>Assignment \<open>d[k] = v\<close> to a Python dict: an existing key keeps its place.\<close>

definition dict_set :: "string \<Rightarrow> json \<Rightarrow> (string \<times> json) list \<Rightarrow> (string \<times> json) list" where
  "dict_set k v d =
     (if k \<in> fst ` set d then map (\<lambda>(k', v'). if k' = k then (k, v) else (k', v')) d
      else d @ [(k, v)])"

definition file_attachments_json :: "(string \<times> bytes) list \<Rightarrow> json" where
  "file_attachments_json xs =
     JList (map (\<lambda>(file_name, file_bytes).
        JDict [(''file_name'', JStr file_name), (''file_bytes'', JStr (b64encode file_bytes))]) xs)"

definition image_json :: "string \<Rightarrow> bytes \<Rightarrow> json" where
  "image_json image_type image_bytes =
     JDict [(''image_type'', JStr image_type), (''image_bytes'', JStr (b64encode image_bytes))]"

text \<open>
  The loop over \<open>message_fields\<close> in \<open>convert_lxmf_message_to_dict\<close>. Indexing or encoding
  a value of the wrong shape raises (\<open>TypeError\<close> stands for Python's \<open>TypeError\<close> and
  \<open>IndexError\<close> here; no handler tells them apart).
\<close>

fun convert_fields ::
  "(field_type \<times> field_value) list \<Rightarrow> (string \<times> json) list \<Rightarrow> exn + (string \<times> json) list" where
  "convert_fields [] acc = Inr acc"
| "convert_fields ((FIELD_FILE_ATTACHMENTS, v) # rest) acc =
     (case v of
        Attachments xs \<Rightarrow>
          convert_fields rest (dict_set ''file_attachments'' (file_attachments_json xs) acc)
      | _ \<Rightarrow> Inl TypeError)"
| "convert_fields ((FIELD_IMAGE, v) # rest) acc =
     (case v of
        Image image_type image_bytes \<Rightarrow>
          convert_fields rest (dict_set ''image'' (image_json image_type image_bytes) acc)
      | _ \<Rightarrow> Inl TypeError)"
| "convert_fields ((FIELD_OTHER _, v) # rest) acc = convert_fields rest acc"

text \<open>The dict returned by \<open>convert_lxmf_message_to_dict\<close>, one field for each key.\<close>

record lxmf_message_dict =
  d_hash :: string
  d_source_hash :: string
  d_destination_hash :: string
  d_is_incoming :: bool
  d_state :: string
  d_progress :: rat
  d_title :: string
  d_content :: string
  d_fields :: "(string \<times> json) list"
  d_timestamp :: rat

definition progress_percentage :: "rat \<Rightarrow> rat" where
  "progress_percentage progress = round2 (fmul progress 100)"

definition convert_lxmf_message_to_dict :: "lxmessage \<Rightarrow> exn + lxmf_message_dict" where
  "convert_lxmf_message_to_dict m =
     (case convert_fields (lxm_fields m) [] of
        Inl e \<Rightarrow> Inl e
      | Inr fs \<Rightarrow>
          (case decode_utf8 (lxm_title m) of
             Inl e \<Rightarrow> Inl e
           | Inr title \<Rightarrow>
               (case decode_utf8 (lxm_content m) of
                  Inl e \<Rightarrow> Inl e
                | Inr content \<Rightarrow>
                    Inr \<lparr>d_hash = hex (lxm_hash m),
                         d_source_hash = hex (lxm_source_hash m),
                         d_destination_hash = hex (lxm_destination_hash m),
                         d_is_incoming = lxm_incoming m,
                         d_state = convert_lxmf_state_to_string m,
                         d_progress = progress_percentage (lxm_progress m),
                         d_title = title,
                         d_content = content,
                         d_fields = fs,
                         d_timestamp = lxm_timestamp m\<rparr>)))"

definition dict_json :: "lxmf_message_dict \<Rightarrow> json" where
  "dict_json d =
     JDict [(''hash'', JStr (d_hash d)),
            (''source_hash'', JStr (d_source_hash d)),
            (''destination_hash'', JStr (d_destination_hash d)),
            (''is_incoming'', JBool (d_is_incoming d)),
            (''state'', JStr (d_state d)),
            (''progress'', JNum (d_progress d)),
            (''title'', JStr (d_title d)),
            (''content'', JStr (d_content d)),
            (''fields'', JDict (d_fields d)),
            (''timestamp'', JNum (d_timestamp d))]"

definition lxmf_event :: "string \<Rightarrow> lxmf_message_dict \<Rightarrow> json" where
  "lxmf_event type d = JDict [(''type'', JStr type), (''lxmf_message'', dict_json d)]"

section \<open>The message ledger\<close>

text \<open>
  Modelled from the spec: the table declaration \<open>database.LxmfMessage\<close> (the module
  \<open>database\<close> is imported by \<open>web.py\<close> and is not among the sources). Its columns are those
  of the persisted record schema; \<open>id\<close> is the integer primary key that SQLite assigns, one
  more than the largest in the table; \<open>hash\<close> carries a unique index (the conflict target of
  the upsert); \<open>created_at\<close> and \<open>updated_at\<close> default to the time of insertion. The
  \<open>fields\<close> column (\<open>fields_col\<close>) holds the text \<open>json.dumps\<close> produced, represented by the value serialised.
  A \<open>datetime\<close> is a clock reading.
\<close>

type_synonym datetime = nat

record lxmf_row =
  row_id :: nat
  hash :: string
  source_hash :: string
  destination_hash :: string
  is_incoming :: bool
  state :: string
  progress :: rat
  title :: string
  content :: string
  fields_col :: json
  timestamp :: rat
  created_at :: datetime
  updated_at :: datetime

text \<open>The statements executed are recorded beside the table.\<close>

datatype statement = INSERT string | UPSERT string | SELECT string string

record database =
  rows :: "lxmf_row list"
  statements :: "statement list"

definition next_id :: "lxmf_row list \<Rightarrow> nat" where
  "next_id rs = fold max (map row_id rs) 0 + 1"

definition new_row :: "nat \<Rightarrow> lxmf_message_dict \<Rightarrow> datetime \<Rightarrow> lxmf_row" where
  "new_row i d now =
     \<lparr>row_id = i, hash = d_hash d, source_hash = d_source_hash d,
      destination_hash = d_destination_hash d, is_incoming = d_is_incoming d,
      state = d_state d, progress = d_progress d, title = d_title d, content = d_content d,
      fields_col = JDict (d_fields d), timestamp = d_timestamp d,
      created_at = now, updated_at = now\<rparr>"

text \<open>\<open>lxmf_message_db.save()\<close> of a fresh model instance: a plain \<open>INSERT\<close>.\<close>

definition db_save :: "database \<Rightarrow> lxmf_message_dict \<Rightarrow> datetime \<Rightarrow> database \<times> exn option" where
  "db_save db d now =
     (let db1 = db\<lparr>statements := statements db @ [INSERT (d_hash d)]\<rparr>
      in if d_hash d \<in> hash ` set (rows db) then (db1, Some IntegrityError)
         else (db1\<lparr>rows := rows db @ [new_row (next_id (rows db)) d now]\<rparr>, None))"

text \<open>
  \<open>LxmfMessage.insert(data).on_conflict(conflict_target=[hash], update=data)\<close>: the columns
  of \<open>data\<close> are written to the row that holds the hash, which keeps its \<open>id\<close> and
  \<open>created_at\<close>; without such a row, \<open>data\<close> is inserted.
\<close>

definition update_row :: "lxmf_message_dict \<Rightarrow> datetime \<Rightarrow> lxmf_row \<Rightarrow> lxmf_row" where
  "update_row d now r =
     r\<lparr>hash := d_hash d, source_hash := d_source_hash d,
       destination_hash := d_destination_hash d, is_incoming := d_is_incoming d,
       state := d_state d, progress := d_progress d, title := d_title d, content := d_content d,
       fields_col := JDict (d_fields d), timestamp := d_timestamp d, updated_at := now\<rparr>"

definition db_upsert :: "database \<Rightarrow> lxmf_message_dict \<Rightarrow> datetime \<Rightarrow> database" where
  "db_upsert db d now =
     db\<lparr>rows :=
          (if d_hash d \<in> hash ` set (rows db)
           then map (\<lambda>r. if hash r = d_hash d then update_row d now r else r) (rows db)
           else rows db @ [new_row (next_id (rows db)) d now]),
        statements := statements db @ [UPSERT (d_hash d)]\<rparr>"

text \<open>
  The query of the endpoint: \<open>where(source = s and destination = d)\<close>,
  \<open>orwhere(destination = s and source = d)\<close>, \<open>order_by(id.asc())\<close>.
\<close>

definition between :: "string \<Rightarrow> string \<Rightarrow> lxmf_row \<Rightarrow> bool" where
  "between s d r =
     ((source_hash r = s \<and> destination_hash r = d) \<or> (destination_hash r = s \<and> source_hash r = d))"

definition select_between :: "lxmf_row list \<Rightarrow> string \<Rightarrow> string \<Rightarrow> lxmf_row list" where
  "select_between rs s d = sort_key row_id (filter (between s d) rs)"

section \<open>The application object\<close>

text \<open>
  An entry of \<open>RNS.Identity.known_destinations\<close>, the announce cache of the network stack:
  the time of the last announce, the public key the identity is recalled from, and the
  application data announced. \<open>RNS.Identity.recall\<close> and \<open>recall_app_data\<close> read this cache.
\<close>

record known_destination =
  kd_timestamp :: rat
  kd_public_key :: bytes
  kd_app_data :: "bytes option"

type_synonym identity_cache = "(bytes \<times> known_destination) list"

definition recall :: "identity_cache \<Rightarrow> bytes \<Rightarrow> bytes option" where
  "recall known h = map_option kd_public_key (map_of known h)"

definition recall_app_data :: "identity_cache \<Rightarrow> bytes \<Rightarrow> bytes option" where
  "recall_app_data known h = Option.bind (map_of known h) kd_app_data"

text \<open>What \<open>print\<close> has written: a text, or a text followed by an exception.\<close>

datatype line = Line string | ErrorLine string exn

text \<open>
  \<open>self\<close> of \<open>ReticulumWebChat\<close>, together with the objects it reaches: the session
  objects, the database and the announce cache.
\<close>

record webchat =
  display_name :: string
  identity_hexhash :: string
  lxmf_address_hexhash :: string
  websocket_clients :: "sid list"
  sessions :: store
  db :: database
  known_destinations :: identity_cache
  stdout :: "line list"

definition websocket_broadcast :: "webchat \<Rightarrow> json \<Rightarrow> webchat \<times> exn option" where
  "websocket_broadcast self data =
     (case send_each (websocket_clients self) data (sessions self) of
        (\<sigma>, r) \<Rightarrow> (self\<lparr>sessions := \<sigma>\<rparr>, r))"

definition config_event :: "webchat \<Rightarrow> json" where
  "config_event self =
     JDict [(''type'', JStr ''config''),
            (''config'', JDict [(''display_name'', JStr (display_name self)),
                                (''identity_hash'', JStr (identity_hexhash self)),
                                (''lxmf_address_hash'', JStr (lxmf_address_hexhash self))])]"

definition send_config_to_websocket_clients :: "webchat \<Rightarrow> webchat \<times> exn option" where
  "send_config_to_websocket_clients self = websocket_broadcast self (config_event self)"

definition convert_app_data_to_string :: "bytes option \<Rightarrow> string option" where
  "convert_app_data_to_string app_data =
     (case app_data of
        None \<Rightarrow> None
      | Some b \<Rightarrow> (case decode_utf8 b of Inl e \<Rightarrow> None | Inr s \<Rightarrow> Some s))"

definition json_of_str_option :: "string option \<Rightarrow> json" where
  "json_of_str_option x = (case x of None \<Rightarrow> JNull | Some s \<Rightarrow> JStr s)"

definition peer_json :: "bytes \<Rightarrow> string option \<Rightarrow> rat \<Rightarrow> json" where
  "peer_json dest_hash app_data last_announce_timestamp =
     JDict [(''destination_hash'', JStr (hex dest_hash)),
            (''app_data'', json_of_str_option app_data),
            (''last_announce_timestamp'', JNum last_announce_timestamp)]"

definition known_peers_event :: "webchat \<Rightarrow> json" where
  "known_peers_event self =
     JDict [(''type'', JStr ''known_peers''),
            (''known_peers'', JList (map (\<lambda>(dest_hash, known_destination).
               peer_json dest_hash
                 (convert_app_data_to_string
                    (recall_app_data (known_destinations self) dest_hash))
                 (kd_timestamp known_destination)) (known_destinations self)))]"

definition send_known_peers_to_websocket_clients :: "webchat \<Rightarrow> webchat \<times> exn option" where
  "send_known_peers_to_websocket_clients self = websocket_broadcast self (known_peers_event self)"

section \<open>Callbacks of the network layer\<close>

text \<open>
  \<open>asyncio.run(self.websocket_broadcast(...))\<close> runs the broadcast to its end in the
  calling context: it is the broadcast. \<open>datetime.now()\<close> and \<open>time.time()\<close> are the
  argument \<open>now\<close>.
\<close>

definition db_upsert_lxmf_message ::
  "webchat \<Rightarrow> lxmessage \<Rightarrow> datetime \<Rightarrow> webchat \<times> exn option" where
  "db_upsert_lxmf_message self lxmf_message now =
     (case convert_lxmf_message_to_dict lxmf_message of
        Inl e \<Rightarrow> (self, Some e)
      | Inr d \<Rightarrow> (self\<lparr>db := db_upsert (db self) d now\<rparr>, None))"

text \<open>The body of the \<open>try\<close> of \<open>on_lxmf_delivery\<close>, then the handler with its \<open>except\<close>.\<close>

definition lxmf_delivery_body ::
  "webchat \<Rightarrow> lxmessage \<Rightarrow> datetime \<Rightarrow> webchat \<times> exn option" where
  "lxmf_delivery_body self message now =
     (case convert_lxmf_message_to_dict message of
        Inl e \<Rightarrow> (self, Some e)
      | Inr d \<Rightarrow>
          (case db_save (db self) d now of
             (db1, Some e) \<Rightarrow> (self\<lparr>db := db1\<rparr>, Some e)
           | (db1, None) \<Rightarrow>
               (case convert_lxmf_message_to_dict message of
                  Inl e \<Rightarrow> (self\<lparr>db := db1\<rparr>, Some e)
                | Inr d2 \<Rightarrow>
                    websocket_broadcast (self\<lparr>db := db1\<rparr>) (lxmf_event ''lxmf.delivery'' d2))))"

definition on_lxmf_delivery :: "webchat \<Rightarrow> lxmessage \<Rightarrow> datetime \<Rightarrow> webchat \<times> exn option" where
  "on_lxmf_delivery self message now =
     (case lxmf_delivery_body self message now of
        (s, Some e) \<Rightarrow> (s\<lparr>stdout := stdout s @ [ErrorLine ''lxmf_delivery error: '' e]\<rparr>, None)
      | (s, None) \<Rightarrow> (s, None))"

definition on_lxmf_sending_state_updated ::
  "webchat \<Rightarrow> lxmessage \<Rightarrow> datetime \<Rightarrow> webchat \<times> exn option" where
  "on_lxmf_sending_state_updated self lxmf_message now =
     (case db_upsert_lxmf_message self lxmf_message now of
        (s, Some e) \<Rightarrow> (s, Some e)
      | (s, None) \<Rightarrow>
          (case convert_lxmf_message_to_dict lxmf_message of
             Inl e \<Rightarrow> (s, Some e)
           | Inr d \<Rightarrow> websocket_broadcast s (lxmf_event ''lxmf_message_state_updated'' d)))"

definition on_lxmf_sending_failed ::
  "webchat \<Rightarrow> lxmessage \<Rightarrow> datetime \<Rightarrow> webchat \<times> exn option" where
  "on_lxmf_sending_failed self lxmf_message now =
     on_lxmf_sending_state_updated self lxmf_message now"

definition announce_event :: "bytes \<Rightarrow> string option \<Rightarrow> rat \<Rightarrow> json" where
  "announce_event dest_hash parsed_app_data now =
     JDict [(''type'', JStr ''announce''),
            (''announce'', peer_json dest_hash parsed_app_data now)]"

text \<open>
  \<open>on_lxmf_announce_received\<close>: here \<open>app_data.decode("utf-8")\<close> stands outside any
  \<open>try\<close>. The announced identity is not read.
\<close>

definition on_lxmf_announce_received ::
  "webchat \<Rightarrow> bytes \<Rightarrow> bytes option \<Rightarrow> rat \<Rightarrow> webchat \<times> exn option" where
  "on_lxmf_announce_received self dest_hash app_data now =
     (case app_data of
        None \<Rightarrow> websocket_broadcast self (announce_event dest_hash None now)
      | Some b \<Rightarrow>
          (case decode_utf8 b of
             Inl e \<Rightarrow> (self, Some e)
           | Inr s \<Rightarrow> websocket_broadcast self (announce_event dest_hash (Some s) now)))"

text \<open>\<open>LXMFAnnounceHandler.received_announce\<close>: \<open>try: callback(...) except: pass\<close>.\<close>

definition received_announce ::
  "webchat \<Rightarrow> bytes \<Rightarrow> bytes option \<Rightarrow> rat \<Rightarrow> webchat \<times> exn option" where
  "received_announce self dest_hash app_data now =
     (case on_lxmf_announce_received self dest_hash app_data now of
        (s, r) \<Rightarrow> (s, None))"

section \<open>Resource downloads\<close>

text \<open>
  What a downloader does to the outside, in order: calls into the network stack, and
  invocations of the failure continuation it was given (whose result type is \<open>'r\<close>).
  The success and progress continuations run from \<open>on_response\<close> and \<open>on_progress\<close>, after
  the link is up, and are not part of \<open>download\<close>.
\<close>

datatype 'r action =
    RequestPath bytes
  | Link bytes string string
  | Invoke 'r

record 'r nomadnet_downloader =
  app_name :: string
  aspects :: string
  dl_destination_hash :: bytes
  dl_path :: string
  dl_timeout :: "nat option"
  on_download_failure :: "string \<Rightarrow> 'r"

definition NomadnetPageDownloader ::
  "bytes \<Rightarrow> string \<Rightarrow> (string \<Rightarrow> 'r) \<Rightarrow> nat option \<Rightarrow> 'r nomadnet_downloader" where
  "NomadnetPageDownloader dest_hash page_path on_page_download_failure t =
     \<lparr>app_name = ''nomadnetwork'', aspects = ''node'',
      dl_destination_hash = dest_hash, dl_path = page_path, dl_timeout = t,
      on_download_failure = (\<lambda>failure_reason. on_page_download_failure failure_reason)\<rparr>"

definition NomadnetFileDownloader ::
  "bytes \<Rightarrow> string \<Rightarrow> (string \<Rightarrow> 'r) \<Rightarrow> nat option \<Rightarrow> 'r nomadnet_downloader" where
  "NomadnetFileDownloader dest_hash page_path on_file_download_failure t =
     \<lparr>app_name = ''nomadnetwork'', aspects = ''node'',
      dl_destination_hash = dest_hash, dl_path = page_path, dl_timeout = t,
      on_download_failure = (\<lambda>failure_reason. on_file_download_failure failure_reason)\<rparr>"

definition download :: "identity_cache \<Rightarrow> 'r nomadnet_downloader \<Rightarrow> 'r action list" where
  "download known self =
     RequestPath (dl_destination_hash self) #
     (case recall known (dl_destination_hash self) of
        None \<Rightarrow> [Invoke (on_download_failure self ''identity not found'')]
      | Some identity \<Rightarrow> [Link identity (app_name self) (aspects self)])"

definition on_failed :: "'r nomadnet_downloader \<Rightarrow> 'r action list" where
  "on_failed self = [Invoke (on_download_failure self ''request_failed'')]"

section \<open>The HTTP and WebSocket routes\<close>

record response =
  status :: nat
  body :: json

definition row_json :: "lxmf_row \<Rightarrow> json" where
  "row_json r =
     JDict [(''id'', JNum (of_nat (row_id r))),
            (''hash'', JStr (hash r)),
            (''source_hash'', JStr (source_hash r)),
            (''destination_hash'', JStr (destination_hash r)),
            (''is_incoming'', JBool (is_incoming r)),
            (''state'', JStr (state r)),
            (''progress'', JNum (progress r)),
            (''title'', JStr (title r)),
            (''content'', JStr (content r)),
            (''fields'', fields_col r),
            (''timestamp'', JNum (timestamp r)),
            (''created_at'', JNum (of_nat (created_at r))),
            (''updated_at'', JNum (of_nat (updated_at r)))]"

text \<open>
  \<open>GET /api/v1/lxmf-messages\<close>. \<open>request.query.get(k, None)\<close> is the first value given for
  \<open>k\<close>, if any.
\<close>

definition lxmf_messages_index ::
  "database \<Rightarrow> (string \<times> string) list \<Rightarrow> response \<times> database" where
  "lxmf_messages_index d query =
     (case map_of query ''source_hash'' of
        None \<Rightarrow>
          (\<lparr>status = 422, body = JDict [(''message'', JStr ''source_hash is required'')]\<rparr>, d)
      | Some src_hash \<Rightarrow>
          (case map_of query ''destination_hash'' of
             None \<Rightarrow>
               (\<lparr>status = 422,
                 body = JDict [(''message'', JStr ''destination_hash is required'')]\<rparr>, d)
           | Some dest_hash \<Rightarrow>
               (\<lparr>status = 200,
                 body = JDict [(''lxmf_messages'',
                   JList (map row_json (select_between (rows d) src_hash dest_hash)))]\<rparr>,
                d\<lparr>statements := statements d @ [SELECT src_hash dest_hash]\<rparr>)))"

text \<open>
  \<open>GET /ws\<close>, up to the message loop: the session is appended to the registry, then the
  configuration and the known peers are broadcast to every registered session.
\<close>

definition ws_open :: "webchat \<Rightarrow> sid \<Rightarrow> webchat \<times> exn option" where
  "ws_open self c =
     (case send_config_to_websocket_clients
             (self\<lparr>websocket_clients := websocket_clients self @ [c]\<rparr>) of
        (s, Some e) \<Rightarrow> (s, Some e)
      | (s, None) \<Rightarrow> send_known_peers_to_websocket_clients s)"

text \<open>
  The message loop. A text frame is parsed (\<open>None\<close>: \<open>json.loads\<close> raises) and handed to
  \<open>on_websocket_data_received\<close>, which is the argument \<open>recv\<close>; an exception of either is
  printed and the loop goes on.
\<close>

datatype frame = TEXT "json option" | ERROR | BINARY

definition ws_frame ::
  "(webchat \<Rightarrow> sid \<Rightarrow> json \<Rightarrow> webchat \<times> exn option) \<Rightarrow> sid \<Rightarrow> webchat \<Rightarrow> frame \<Rightarrow> webchat" where
  "ws_frame recv c self msg =
     (case msg of
        TEXT None \<Rightarrow>
          self\<lparr>stdout := stdout self @
            [Line ''failed to process client message'', ErrorLine [] JSONDecodeError]\<rparr>
      | TEXT (Some data) \<Rightarrow>
          (case recv self c data of
             (s, None) \<Rightarrow> s
           | (s, Some e) \<Rightarrow>
               s\<lparr>stdout := stdout s @
                 [Line ''failed to process client message'', ErrorLine [] e]\<rparr>)
      | ERROR \<Rightarrow> self\<lparr>stdout := stdout self @ [Line ''ws connection error'']\<rparr>
      | BINARY \<Rightarrow> self)"

text \<open>\<open>self.websocket_clients.remove(c)\<close>: the first occurrence goes; none raises.\<close>

definition ws_close :: "webchat \<Rightarrow> sid \<Rightarrow> webchat \<times> exn option" where
  "ws_close self c =
     (if c \<in> set (websocket_clients self)
      then (self\<lparr>websocket_clients := remove1 c (websocket_clients self)\<rparr>, None)
      else (self, Some ValueError))"

definition ws ::
  "(webchat \<Rightarrow> sid \<Rightarrow> json \<Rightarrow> webchat \<times> exn option) \<Rightarrow> webchat \<Rightarrow> sid \<Rightarrow> frame list
     \<Rightarrow> webchat \<times> exn option" where
  "ws recv self c msgs =
     (case ws_open self c of
        (s, Some e) \<Rightarrow> (s, Some e)
      | (s, None) \<Rightarrow> ws_close (foldl (ws_frame recv c) s msgs) c)"

section \<open>Concrete inputs\<close>

text \<open>
  A hub with two registered viewers, both open; the same hub when the transport of the
  first viewer is closing; an outbound message with hash \<open>abcd\<close> at progress 0.4567.
\<close>

definition empty_db :: database where
  "empty_db = \<lparr>rows = [], statements = []\<rparr>"

definition example_chat :: webchat where
  "example_chat =
     \<lparr>display_name = ''Anonymous Peer'', identity_hexhash = ''0a'',
      lxmf_address_hexhash = ''0b'', websocket_clients = [0, 1],
      sessions = (\<lambda>c. \<lparr>inbox = [], closing = False\<rparr>),
      db = empty_db, known_destinations = [], stdout = []\<rparr>"

definition broken_chat :: webchat where
  "broken_chat =
     example_chat\<lparr>sessions := (sessions example_chat)(0 := \<lparr>inbox = [], closing = True\<rparr>)\<rparr>"

definition example_message :: lxmessage where
  "example_message =
     \<lparr>lxm_hash = [0xAB, 0xCD], lxm_source_hash = [0x0B], lxm_destination_hash = [0x12, 0x34],
      lxm_incoming = False, lxm_state = SENDING, lxm_progress = fl (4567 / 10000),
      lxm_title = [], lxm_content = [0x68, 0x69], lxm_fields = [],
      lxm_timestamp = 1700000000\<rparr>"

definition example_dict :: lxmf_message_dict where
  "example_dict =
     \<lparr>d_hash = ''abcd'', d_source_hash = ''0b'', d_destination_hash = ''1234'',
      d_is_incoming = False, d_state = ''sending'', d_progress = fl (4567 / 100),
      d_title = [], d_content = ''hi'', d_fields = [], d_timestamp = 1700000000\<rparr>"

definition late_chat :: webchat where
  "late_chat =
     example_chat\<lparr>sessions := (sessions example_chat)(1 := \<lparr>inbox = [], closing = True\<rparr>),
                  websocket_clients := [0, 1, 2]\<rparr>"

definition later_message :: lxmessage where
  "later_message = example_message\<lparr>lxm_state := SENT, lxm_progress := 1\<rparr>"

definition later_dict :: lxmf_message_dict where
  "later_dict = example_dict\<lparr>d_state := ''sent'', d_progress := 100\<rparr>"

text \<open>
  A ledger with a message from \<open>0a\<close> to \<open>0b\<close>, then one between strangers, then the answer
  from \<open>0b\<close> to \<open>0a\<close>.
\<close>

definition example_ledger :: database where
  "example_ledger =
     db_upsert
       (db_upsert
          (db_upsert empty_db
             (example_dict\<lparr>d_hash := ''01'', d_source_hash := ''0a'', d_destination_hash := ''0b''\<rparr>) 1)
          (example_dict\<lparr>d_hash := ''02'', d_source_hash := ''0c'', d_destination_hash := ''0d''\<rparr>) 2)
       (example_dict\<lparr>d_hash := ''03'', d_source_hash := ''0b'', d_destination_hash := ''0a''\<rparr>) 3"

section \<open>Properties of the fan-out hub\<close>

lemma send_each_open:
  "distinct cs \<Longrightarrow> \<forall>c\<in>set cs. \<not> closing (\<sigma> c) \<Longrightarrow>
   send_each cs data \<sigma> =
     (\<lambda>x. if x \<in> set cs then (\<sigma> x)\<lparr>inbox := inbox (\<sigma> x) @ [data]\<rparr> else \<sigma> x, None)"
proof (induction cs arbitrary: \<sigma>)
  case Nil
  then show ?case by simp
next
  case (Cons c cs)
  let ?\<sigma> = "\<sigma>(c := (\<sigma> c)\<lparr>inbox := inbox (\<sigma> c) @ [data]\<rparr>)"
  from Cons.prems have "distinct cs" and "\<forall>x\<in>set cs. \<not> closing (?\<sigma> x)" and "c \<notin> set cs"
    by auto
  then have "send_each cs data ?\<sigma> =
     (\<lambda>x. if x \<in> set cs then (?\<sigma> x)\<lparr>inbox := inbox (?\<sigma> x) @ [data]\<rparr> else ?\<sigma> x, None)"
    using Cons.IH by blast
  with Cons.prems \<open>c \<notin> set cs\<close> show ?case
    by (auto simp: send_str_def fun_eq_iff)
qed

lemma send_each_closing:
  "distinct (pre @ [c]) \<Longrightarrow> \<forall>x\<in>set pre. \<not> closing (\<sigma> x) \<Longrightarrow> closing (\<sigma> c) \<Longrightarrow>
   send_each (pre @ c # post) data \<sigma> =
     (\<lambda>x. if x \<in> set pre then (\<sigma> x)\<lparr>inbox := inbox (\<sigma> x) @ [data]\<rparr> else \<sigma> x,
      Some ConnectionResetError)"
proof (induction pre arbitrary: \<sigma>)
  case Nil
  then show ?case by (simp add: send_str_def)
next
  case (Cons p pre)
  let ?\<sigma> = "\<sigma>(p := (\<sigma> p)\<lparr>inbox := inbox (\<sigma> p) @ [data]\<rparr>)"
  from Cons.prems have "distinct (pre @ [c])" and "\<forall>x\<in>set pre. \<not> closing (?\<sigma> x)"
    and "closing (?\<sigma> c)" and "p \<notin> set pre"
    by auto
  then have "send_each (pre @ c # post) data ?\<sigma> =
     (\<lambda>x. if x \<in> set pre then (?\<sigma> x)\<lparr>inbox := inbox (?\<sigma> x) @ [data]\<rparr> else ?\<sigma> x,
      Some ConnectionResetError)"
    using Cons.IH by blast
  with Cons.prems \<open>p \<notin> set pre\<close> show ?case
    by (auto simp: send_str_def fun_eq_iff)
qed

text \<open>
  The registry holds each session once: a broadcast leaves it alone, registration appends
  the new session object, deregistration removes it.
\<close>

lemma websocket_broadcast_registry:
  "websocket_broadcast self data = (s, r) \<Longrightarrow> websocket_clients s = websocket_clients self"
  by (auto simp: websocket_broadcast_def split: prod.splits)

lemma websocket_broadcast_registry_fst [simp]:
  "websocket_clients (fst (websocket_broadcast self data)) = websocket_clients self"
  by (simp add: websocket_broadcast_def split: prod.splits)

lemma ws_open_registry:
  "websocket_clients (fst (ws_open self c)) = websocket_clients self @ [c]"
  by (auto simp: ws_open_def send_config_to_websocket_clients_def
      send_known_peers_to_websocket_clients_def
      split: prod.splits option.splits dest!: websocket_broadcast_registry)

lemma ws_open_distinct:
  "distinct (websocket_clients self) \<Longrightarrow> c \<notin> set (websocket_clients self) \<Longrightarrow>
   distinct (websocket_clients (fst (ws_open self c)))"
  by (simp add: ws_open_registry)

lemma ws_close_distinct:
  "distinct (websocket_clients self) \<Longrightarrow>
   distinct (websocket_clients (fst (ws_close self c)))
   \<and> c \<notin> set (websocket_clients (fst (ws_close self c)))"
  by (simp add: ws_close_def)

text \<open>
  Claim C9. In a broadcast in which no delivery fails (no registered session is closing), no
  exception comes out, every session registered at the start has the event appended to what
  it received, every session outside the registry is untouched, and a session that was
  deregistered (\<open>ws_close\<close>) before the broadcast receives nothing from it. The registry
  holds each session object once.
\<close>

theorem broadcast_reaches_every_registered_session:
  assumes "distinct (websocket_clients self)"
    and "\<forall>c\<in>set (websocket_clients self). \<not> closing (sessions self c)"
  shows "snd (websocket_broadcast self data) = None
    \<and> (\<forall>c\<in>set (websocket_clients self).
          inbox (sessions (fst (websocket_broadcast self data)) c) = inbox (sessions self c) @ [data])
    \<and> (\<forall>c. c \<notin> set (websocket_clients self) \<longrightarrow>
          sessions (fst (websocket_broadcast self data)) c = sessions self c)
    \<and> (\<forall>c\<in>set (websocket_clients self).
          sessions (fst (websocket_broadcast (fst (ws_close self c)) data)) c = sessions self c)"
proof -
  have open_all: "websocket_broadcast self data =
      (self\<lparr>sessions := (\<lambda>x. if x \<in> set (websocket_clients self)
          then (sessions self x)\<lparr>inbox := inbox (sessions self x) @ [data]\<rparr> else sessions self x)\<rparr>,
       None)"
    using assms by (simp add: websocket_broadcast_def send_each_open)
  have gone: "sessions (fst (websocket_broadcast (fst (ws_close self c)) data)) c = sessions self c"
    if "c \<in> set (websocket_clients self)" for c
  proof -
    let ?s = "self\<lparr>websocket_clients := remove1 c (websocket_clients self)\<rparr>"
    have "distinct (websocket_clients ?s)" and "c \<notin> set (websocket_clients ?s)"
      and "\<forall>x\<in>set (websocket_clients ?s). \<not> closing (sessions ?s x)"
      using assms by auto
    then show ?thesis
      using that by (simp add: ws_close_def websocket_broadcast_def send_each_open)
  qed
  show ?thesis
    using gone by (simp add: open_all)
qed

theorem broadcast_reaches_every_registered_session_witness:
  "distinct (websocket_clients example_chat)
   \<and> websocket_clients example_chat = [0, 1]
   \<and> \<not> closing (sessions example_chat 0) \<and> \<not> closing (sessions example_chat 1)
   \<and> snd (websocket_broadcast example_chat JNull) = None
   \<and> inbox (sessions (fst (websocket_broadcast example_chat JNull)) 0) = [JNull]
   \<and> inbox (sessions (fst (websocket_broadcast example_chat JNull)) 1) = [JNull]
   \<and> sessions (fst (websocket_broadcast example_chat JNull)) 2 = sessions example_chat 2
   \<and> sessions (fst (websocket_broadcast (fst (ws_close example_chat 1)) JNull)) 1
       = sessions example_chat 1"
proof -
  have d: "distinct (websocket_clients example_chat)"
    by (simp add: example_chat_def)
  have h: "\<forall>c\<in>set (websocket_clients example_chat). \<not> closing (sessions example_chat c)"
    by (simp add: example_chat_def)
  have c: "websocket_clients example_chat = [0, 1]" and i: "inbox (sessions example_chat c) = []" for c
    by (simp_all add: example_chat_def)
  show ?thesis
    using broadcast_reaches_every_registered_session [OF d h, of JNull] d
    by (simp add: c i) (simp add: example_chat_def)
qed

text \<open>
  Claim C2, as stated, fails: with the first of two registered sessions closing, the
  broadcast raises \<open>ConnectionResetError\<close> to its caller and the second session, which is
  open, receives nothing.
\<close>

theorem broadcast_failure_propagates_counterexample:
  "1 \<in> set (websocket_clients broken_chat) \<and> \<not> closing (sessions broken_chat 1)
   \<and> closing (sessions broken_chat 0)
   \<and> snd (websocket_broadcast broken_chat JNull) = Some ConnectionResetError
   \<and> inbox (sessions (fst (websocket_broadcast broken_chat JNull)) 1) = []"
  by (simp add: broken_chat_def example_chat_def websocket_broadcast_def send_str_def)

text \<open>
  Claim C2, amended. A broadcast delivers in registry order. When the delivery to a session
  fails, the sessions registered before it have received the event, the exception of that
  delivery is the outcome of the broadcast, and every other session (the failing one and
  those registered after it) is left as it was.
\<close>

theorem broadcast_stops_at_first_failure:
  assumes "websocket_clients self = pre @ c # post"
    and "distinct (pre @ [c])"
    and "\<forall>x\<in>set pre. \<not> closing (sessions self x)"
    and "closing (sessions self c)"
  shows "snd (websocket_broadcast self data) = Some ConnectionResetError
    \<and> (\<forall>x\<in>set pre.
          inbox (sessions (fst (websocket_broadcast self data)) x) = inbox (sessions self x) @ [data])
    \<and> (\<forall>x. x \<notin> set pre \<longrightarrow>
          sessions (fst (websocket_broadcast self data)) x = sessions self x)"
  using assms by (simp add: websocket_broadcast_def send_each_closing)

theorem broadcast_stops_at_first_failure_witness:
  "websocket_clients late_chat = [0] @ 1 # [2]
   \<and> distinct ([0] @ [1 :: nat])
   \<and> \<not> closing (sessions late_chat 0)
   \<and> closing (sessions late_chat 1)
   \<and> snd (websocket_broadcast late_chat JNull) = Some ConnectionResetError
   \<and> inbox (sessions (fst (websocket_broadcast late_chat JNull)) 0) = [JNull]
   \<and> sessions (fst (websocket_broadcast late_chat JNull)) 2 = sessions late_chat 2"
proof -
  have a: "websocket_clients late_chat = [0] @ 1 # [2]"
    and b: "distinct ([0] @ [1 :: nat])"
    and c: "\<forall>x\<in>set [0]. \<not> closing (sessions late_chat x)"
    and d: "closing (sessions late_chat 1)"
    and i: "inbox (sessions late_chat 0) = []"
    by (simp_all add: late_chat_def example_chat_def)
  show ?thesis
    using broadcast_stops_at_first_failure [OF a b c d, of JNull] a c d
    by (simp add: i)
qed

section \<open>Registration of a viewer\<close>

lemma config_event_hub [simp]:
  "config_event (self\<lparr>sessions := \<sigma>\<rparr>) = config_event self"
  "config_event (self\<lparr>websocket_clients := cs\<rparr>) = config_event self"
  by (simp_all add: config_event_def)

lemma known_peers_event_hub [simp]:
  "known_peers_event (self\<lparr>sessions := \<sigma>\<rparr>) = known_peers_event self"
  "known_peers_event (self\<lparr>websocket_clients := cs\<rparr>) = known_peers_event self"
  by (simp_all add: known_peers_event_def)

lemma websocket_broadcast_open:
  assumes "distinct (websocket_clients self)"
    and "\<forall>c\<in>set (websocket_clients self). \<not> closing (sessions self c)"
  shows "websocket_broadcast self data =
      (self\<lparr>sessions := (\<lambda>x. if x \<in> set (websocket_clients self)
          then (sessions self x)\<lparr>inbox := inbox (sessions self x) @ [data]\<rparr> else sessions self x)\<rparr>,
       None)"
  using assms by (simp add: websocket_broadcast_def send_each_open)

text \<open>
  Claim C3, as stated, fails: the two snapshot events are broadcast to every registered
  session, the new one last. With an earlier session closing, the configuration broadcast
  raises before it reaches the new session: the handler ends, the new session has received
  nothing, and it stays in the registry.
\<close>

theorem registration_snapshot_counterexample:
  "2 \<notin> set (websocket_clients broken_chat) \<and> inbox (sessions broken_chat 2) = []
   \<and> \<not> closing (sessions broken_chat 2)
   \<and> snd (ws_open broken_chat 2) = Some ConnectionResetError
   \<and> inbox (sessions (fst (ws_open broken_chat 2)) 2) = []
   \<and> 2 \<in> set (websocket_clients (fst (ws_open broken_chat 2)))"
  by (simp add: broken_chat_def example_chat_def ws_open_def send_config_to_websocket_clients_def
      websocket_broadcast_def send_str_def)

text \<open>
  Claim C3, amended. When no delivery of the two snapshot broadcasts fails (no session of
  the registry, nor the new one, is closing), a newly registered session has received exactly
  the configuration event and then the known-peers event when the message loop starts: the
  handler processes every input of the session from that state on.
\<close>

theorem registration_snapshot:
  assumes "distinct (websocket_clients self)"
    and "c \<notin> set (websocket_clients self)"
    and "inbox (sessions self c) = []"
    and "\<forall>x\<in>set (websocket_clients self). \<not> closing (sessions self x)"
    and "\<not> closing (sessions self c)"
  shows "snd (ws_open self c) = None
    \<and> inbox (sessions (fst (ws_open self c)) c) = [config_event self, known_peers_event self]
    \<and> (\<forall>recv msgs.
          ws recv self c msgs = ws_close (foldl (ws_frame recv c) (fst (ws_open self c)) msgs) c)"
proof -
  define s0 where "s0 = self\<lparr>websocket_clients := websocket_clients self @ [c]\<rparr>"
  have d0: "distinct (websocket_clients s0)"
    and o0: "\<forall>x\<in>set (websocket_clients s0). \<not> closing (sessions s0 x)"
    and c0: "c \<in> set (websocket_clients s0)" and i0: "inbox (sessions s0 c) = []"
    using assms by (auto simp: s0_def)
  obtain s1 where first: "websocket_broadcast s0 (config_event self) = (s1, None)"
    and s1: "s1 = s0\<lparr>sessions := (\<lambda>x. if x \<in> set (websocket_clients s0)
          then (sessions s0 x)\<lparr>inbox := inbox (sessions s0 x) @ [config_event self]\<rparr>
          else sessions s0 x)\<rparr>"
    using websocket_broadcast_open [OF d0 o0] by blast
  have d1: "distinct (websocket_clients s1)"
    and o1: "\<forall>x\<in>set (websocket_clients s1). \<not> closing (sessions s1 x)"
    and c1: "c \<in> set (websocket_clients s1)" and i1: "inbox (sessions s1 c) = [config_event self]"
    using d0 o0 c0 i0 by (auto simp: s1)
  obtain s2 where second: "websocket_broadcast s1 (known_peers_event self) = (s2, None)"
    and s2: "s2 = s1\<lparr>sessions := (\<lambda>x. if x \<in> set (websocket_clients s1)
          then (sessions s1 x)\<lparr>inbox := inbox (sessions s1 x) @ [known_peers_event self]\<rparr>
          else sessions s1 x)\<rparr>"
    using websocket_broadcast_open [OF d1 o1] by blast
  have i2: "inbox (sessions s2 c) = [config_event self, known_peers_event self]"
    using c1 i1 by (simp add: s2)
  have e0: "config_event s0 = config_event self"
    by (simp add: s0_def)
  have e1: "known_peers_event s1 = known_peers_event self"
    by (simp add: s1 s0_def)
  have opened: "ws_open self c = (s2, None)"
    by (simp add: ws_open_def send_config_to_websocket_clients_def
        send_known_peers_to_websocket_clients_def s0_def [symmetric] e0 first e1 second)
  show ?thesis
    using i2 by (simp add: opened ws_def)
qed

theorem registration_snapshot_witness:
  "distinct (websocket_clients example_chat)
   \<and> 2 \<notin> set (websocket_clients example_chat)
   \<and> inbox (sessions example_chat 2) = []
   \<and> \<not> closing (sessions example_chat 0) \<and> \<not> closing (sessions example_chat 1)
   \<and> \<not> closing (sessions example_chat 2)
   \<and> snd (ws_open example_chat 2) = None
   \<and> inbox (sessions (fst (ws_open example_chat 2)) 2)
       = [config_event example_chat, known_peers_event example_chat]"
proof -
  have a: "distinct (websocket_clients example_chat)"
    and b: "2 \<notin> set (websocket_clients example_chat)"
    and c: "inbox (sessions example_chat 2) = []"
    and d: "\<forall>x\<in>set (websocket_clients example_chat). \<not> closing (sessions example_chat x)"
    and e: "\<not> closing (sessions example_chat 2)"
    and f: "\<not> closing (sessions example_chat 0)" "\<not> closing (sessions example_chat 1)"
    by (simp_all add: example_chat_def)
  show ?thesis
    using registration_snapshot [OF a b c d e] a b c e f by simp
qed

section \<open>Idempotence of the upsert\<close>

lemma hash_update_row [simp]: "hash (update_row d now r) = d_hash d"
  by (simp add: update_row_def)

lemma hash_new_row [simp]: "hash (new_row i d now) = d_hash d"
  by (simp add: new_row_def)

lemma map_hash_update:
  "map (hash \<circ> (\<lambda>r. if hash r = d_hash x then update_row x now r else r)) rs = map hash rs"
  by (induction rs) auto

lemma filter_hash_update:
  "filter (\<lambda>r. hash r = d_hash x) (map (\<lambda>r. if hash r = d_hash x then update_row x now r else r) rs)
     = map (update_row x now) (filter (\<lambda>r. hash r = d_hash x) rs)"
  by (induction rs) auto

lemma db_upsert_distinct:
  assumes "distinct (map hash (rows d))"
  shows "distinct (map hash (rows (db_upsert d x now)))"
  using assms by (simp add: db_upsert_def map_hash_update)

lemma db_upsert_present: "d_hash x \<in> hash ` set (rows (db_upsert d x now))"
proof (cases "d_hash x \<in> hash ` set (rows d)")
  case True
  have "set (map hash (rows (db_upsert d x now))) = set (map hash (rows d))"
    using True by (simp add: db_upsert_def map_hash_update del: set_map)
  with True show ?thesis by simp
next
  case False
  then show ?thesis by (simp add: db_upsert_def)
qed

lemma filter_hash_unique:
  "distinct (map hash rs) \<Longrightarrow> h \<in> hash ` set rs \<Longrightarrow> \<exists>r. filter (\<lambda>r. hash r = h) rs = [r]"
proof (induction rs)
  case Nil
  then show ?case by simp
next
  case (Cons a rs)
  show ?case
  proof (cases "hash a = h")
    case True
    with Cons.prems have "filter (\<lambda>r. hash r = h) rs = []"
      by (auto simp: filter_empty_conv image_iff)
    with True show ?thesis by simp
  next
    case False
    with Cons show ?thesis by auto
  qed
qed

lemma db_upsert_twice:
  assumes "distinct (map hash (rows d))" and "d_hash x1 = d_hash x2"
  shows "\<exists>r. filter (\<lambda>r. hash r = d_hash x2) (rows (db_upsert (db_upsert d x1 t1) x2 t2))
            = [update_row x2 t2 r]"
proof -
  let ?d1 = "db_upsert d x1 t1"
  have present: "d_hash x2 \<in> hash ` set (rows ?d1)"
    using db_upsert_present [of x1 d t1] assms(2) by simp
  have "distinct (map hash (rows ?d1))"
    using assms(1) by (rule db_upsert_distinct)
  then obtain r where r: "filter (\<lambda>r. hash r = d_hash x2) (rows ?d1) = [r]"
    using present filter_hash_unique by blast
  have "rows (db_upsert ?d1 x2 t2)
      = map (\<lambda>r. if hash r = d_hash x2 then update_row x2 t2 r else r) (rows ?d1)"
    using present by (simp add: db_upsert_def)
  then have "filter (\<lambda>r. hash r = d_hash x2) (rows (db_upsert ?d1 x2 t2)) = [update_row x2 t2 r]"
    by (simp add: filter_hash_update r)
  then show ?thesis ..
qed

lemma convert_example: "convert_lxmf_message_to_dict example_message = Inr example_dict"
  by code_simp

lemma convert_later: "convert_lxmf_message_to_dict later_message = Inr later_dict"
  by code_simp

text \<open>
  Claim C1. On a ledger whose hashes are unique (the unique index; \<open>db_upsert\<close> keeps it, see
  \<open>db_upsert_distinct\<close>), two upserts of messages with the same hash that both convert
  leave exactly one row with that hash, and the state, progress, title, content, fields,
  timestamp and \<open>updated_at\<close> of that row are those of the second call.
\<close>

theorem upsert_twice_one_row_latest_fields:
  assumes "distinct (map hash (rows (db self)))"
    and "lxm_hash m1 = lxm_hash m2"
    and "convert_lxmf_message_to_dict m1 = Inr d1"
    and "convert_lxmf_message_to_dict m2 = Inr d2"
  shows "\<exists>s1 s2 r.
      db_upsert_lxmf_message self m1 t1 = (s1, None)
    \<and> db_upsert_lxmf_message s1 m2 t2 = (s2, None)
    \<and> filter (\<lambda>r. hash r = hex (lxm_hash m2)) (rows (db s2)) = [r]
    \<and> state r = d_state d2 \<and> progress r = d_progress d2 \<and> title r = d_title d2
    \<and> content r = d_content d2 \<and> fields_col r = JDict (d_fields d2)
    \<and> timestamp r = d_timestamp d2 \<and> updated_at r = t2"
proof -
  have h1: "d_hash d1 = hex (lxm_hash m1)" and h2: "d_hash d2 = hex (lxm_hash m2)"
    using assms(3,4)
    by (auto simp: convert_lxmf_message_to_dict_def split: sum.splits)
  then have same: "d_hash d1 = d_hash d2"
    using assms(2) by simp
  obtain r0 where "filter (\<lambda>r. hash r = d_hash d2)
      (rows (db_upsert (db_upsert (db self) d1 t1) d2 t2)) = [update_row d2 t2 r0]"
    using db_upsert_twice [OF assms(1) same] by blast
  then show ?thesis
    using assms(3,4) by (simp add: db_upsert_lxmf_message_def h2 update_row_def)
qed

theorem upsert_twice_one_row_latest_fields_witness:
  "distinct (map hash (rows (db example_chat)))
   \<and> lxm_hash example_message = lxm_hash later_message
   \<and> convert_lxmf_message_to_dict example_message = Inr example_dict
   \<and> convert_lxmf_message_to_dict later_message = Inr later_dict
   \<and> (\<exists>s1 s2 r.
        db_upsert_lxmf_message example_chat example_message 1 = (s1, None)
      \<and> db_upsert_lxmf_message s1 later_message 2 = (s2, None)
      \<and> filter (\<lambda>r. hash r = hex (lxm_hash later_message)) (rows (db s2)) = [r]
      \<and> state r = ''sent'' \<and> progress r = 100 \<and> updated_at r = 2)"
proof -
  have a: "distinct (map hash (rows (db example_chat)))"
    by (simp add: example_chat_def empty_db_def)
  have b: "lxm_hash example_message = lxm_hash later_message"
    by (simp add: later_message_def)
  have c: "d_state later_dict = ''sent''" "d_progress later_dict = 100"
    by (simp_all add: later_dict_def)
  show ?thesis
    using upsert_twice_one_row_latest_fields [OF a b convert_example convert_later, of 1 2]
      a b convert_example convert_later
    by (simp add: c) blast
qed

section \<open>The message query\<close>

lemma row_id_update_row [simp]: "row_id (update_row d now r) = row_id r"
  by (simp add: update_row_def)

lemma row_id_new_row [simp]: "row_id (new_row i d now) = i"
  by (simp add: new_row_def)

lemma fold_max_upper: "x \<in> set xs \<Longrightarrow> x \<le> fold max xs (a::nat)"
proof (induction xs arbitrary: a)
  case Nil
  then show ?case by simp
next
  case (Cons y ys)
  have mono: "b \<le> fold max ys b" for b :: nat
    by (induction ys arbitrary: b) (auto intro: order_trans [OF max.cobounded2])
  show ?case
  proof (cases "x = y")
    case True
    then show ?thesis
      using mono [of "max y a"] by simp
  next
    case False
    with Cons show ?thesis by simp
  qed
qed

lemma next_id_fresh: "r \<in> set rs \<Longrightarrow> row_id r < next_id rs"
  using fold_max_upper [of "row_id r" "map row_id rs" 0] by (simp add: next_id_def)

lemma map_row_id_update:
  "map (row_id \<circ> (\<lambda>r. if hash r = d_hash x then update_row x now r else r)) rs = map row_id rs"
  by (induction rs) auto

lemma db_upsert_ids_ascend:
  assumes "sorted_wrt (<) (map row_id (rows d))"
  shows "sorted_wrt (<) (map row_id (rows (db_upsert d x now)))"
  using assms
  by (auto simp: db_upsert_def map_row_id_update sorted_wrt_append next_id_fresh)

lemma db_save_ids_ascend:
  assumes "sorted_wrt (<) (map row_id (rows d))"
  shows "sorted_wrt (<) (map row_id (rows (fst (db_save d x now))))"
  using assms
  by (auto simp: db_save_def Let_def sorted_wrt_append next_id_fresh)

lemma select_between_insertion_order:
  assumes "sorted_wrt (<) (map row_id rs)"
  shows "select_between rs s d = filter (between s d) rs"
proof -
  have "sorted (map row_id rs)"
    using assms by (simp add: strict_sorted_iff)
  then have "sorted (map row_id (filter (between s d) rs))"
    by (rule sorted_filter)
  then show ?thesis
    by (simp add: select_between_def sort_key_id_if_sorted)
qed

text \<open>
  Claim C4. The query for \<open>(s, d)\<close> returns exactly the rows of the ledger that go from \<open>s\<close>
  to \<open>d\<close> or from \<open>d\<close> to \<open>s\<close>, each as often as the ledger holds it, in ascending \<open>id\<close>.
  The \<open>id\<close> is assigned at the first insertion of a hash and grows with every insertion
  (\<open>next_id_fresh\<close>), so ascending \<open>id\<close> is oldest first
  (\<open>select_between_insertion_order\<close>).
\<close>

theorem query_between_two_addresses:
  "mset (select_between rs s d) = filter_mset (between s d) (mset rs)
   \<and> set (select_between rs s d)
       = {r \<in> set rs. (source_hash r = s \<and> destination_hash r = d)
                     \<or> (source_hash r = d \<and> destination_hash r = s)}
   \<and> sorted (map row_id (select_between rs s d))"
proof (intro conjI)
  show "mset (select_between rs s d) = filter_mset (between s d) (mset rs)"
    by (simp add: select_between_def)
  show "set (select_between rs s d)
       = {r \<in> set rs. (source_hash r = s \<and> destination_hash r = d)
                     \<or> (source_hash r = d \<and> destination_hash r = s)}"
    by (auto simp: select_between_def between_def)
  show "sorted (map row_id (select_between rs s d))"
    by (simp add: select_between_def)
qed

lemma example_ledger_query:
  "map hash (select_between (rows example_ledger) ''0a'' ''0b'') = [''01'', ''03'']"
  by code_simp

text \<open>
  Claim C10. When \<open>source_hash\<close> or \<open>destination_hash\<close> is absent from the query string, the
  endpoint answers 422 with a message that names a missing parameter (\<open>source_hash\<close> first),
  and the database is returned as it was: no statement is executed and no row changes.
\<close>

theorem missing_parameter_is_rejected:
  assumes "map_of query ''source_hash'' = None \<or> map_of query ''destination_hash'' = None"
  shows "\<exists>msg. lxmf_messages_index d query
           = (\<lparr>status = 422, body = JDict [(''message'', JStr msg)]\<rparr>, d)
    \<and> ((map_of query ''source_hash'' = None \<and> msg = ''source_hash is required'')
       \<or> (map_of query ''destination_hash'' = None \<and> msg = ''destination_hash is required''))"
  using assms by (auto simp: lxmf_messages_index_def split: option.splits)

theorem missing_parameter_is_rejected_witness:
  "map_of [(''source_hash'', ''0b'')] ''destination_hash'' = None
   \<and> (\<exists>msg. lxmf_messages_index empty_db [(''source_hash'', ''0b'')]
           = (\<lparr>status = 422, body = JDict [(''message'', JStr msg)]\<rparr>, empty_db)
         \<and> msg = ''destination_hash is required'')"
proof -
  have a: "map_of [(''source_hash'', ''0b'')] ''source_hash'' = None
      \<or> map_of [(''source_hash'', ''0b'')] ''destination_hash'' = None"
    by simp
  show ?thesis
    using missing_parameter_is_rejected [OF a, of empty_db] by simp
qed

section \<open>Downloads without a cached identity\<close>

text \<open>
  Claim C5. When no identity is cached for the destination, a download, of a page or of a
  file, requests the path and then calls the failure continuation with the reason
  \<open>identity not found\<close>, and does nothing else: no link is created, nothing is awaited and
  nothing is tried again.
\<close>

theorem download_without_identity_fails_at_once:
  assumes "recall known dest = None"
  shows "download known (NomadnetPageDownloader dest path on_failure t)
           = [RequestPath dest, Invoke (on_failure ''identity not found'')]
    \<and> download known (NomadnetFileDownloader dest path on_failure t)
           = [RequestPath dest, Invoke (on_failure ''identity not found'')]"
  using assms by (simp add: download_def NomadnetPageDownloader_def NomadnetFileDownloader_def)

theorem download_without_identity_fails_at_once_witness:
  "recall [] [0x12, 0x34] = None
   \<and> download [] (NomadnetPageDownloader [0x12, 0x34] ''/page/index.mu'' id None)
        = [RequestPath [0x12, 0x34], Invoke ''identity not found'']
   \<and> download [] (NomadnetFileDownloader [0x12, 0x34] ''/page/index.mu'' id None)
        = [RequestPath [0x12, 0x34], Invoke ''identity not found'']"
proof -
  have a: "recall [] [0x12, 0x34] = None"
    by (simp add: recall_def)
  show ?thesis
    using download_without_identity_fails_at_once [OF a, of "''/page/index.mu''" id None] a
    by simp
qed

section \<open>Rendering of the progress\<close>

lemma rhe_near: "\<bar>x - of_int (rhe x)\<bar> \<le> 1 / 2"
proof -
  have "of_int \<lfloor>x\<rfloor> \<le> x" and "x < of_int \<lfloor>x\<rfloor> + 1"
    by linarith+
  then show ?thesis
    by (auto simp: rhe_def Let_def abs_le_iff)
qed

text \<open>
  Claim C8. A progress of 0.4567 (the float nearest to it) is rendered as 45.67 (the float
  nearest to it, which \<open>json.dumps\<close> prints as \<open>45.67\<close>). In general the rendered progress is
  \<open>round(progress * 100, 2)\<close>: the float nearest to a decimal \<open>k / 100\<close> that lies within half
  a unit of the second decimal of the float product \<open>progress * 100\<close>.
\<close>

theorem rendered_progress_is_percentage:
  "progress_percentage (fl (4567 / 10000)) = fl (4567 / 100)
   \<and> (\<forall>m d. convert_lxmf_message_to_dict m = Inr d \<longrightarrow>
         d_progress d = round2 (fmul (lxm_progress m) 100)
         \<and> (\<exists>k::int. d_progress d = fl (of_int k / 100)
               \<and> \<bar>fmul (lxm_progress m) 100 * 100 - of_int k\<bar> \<le> 1 / 2))"
proof (intro conjI allI impI)
  show "progress_percentage (fl (4567 / 10000)) = fl (4567 / 100)"
    by code_simp
next
  fix m d
  assume "convert_lxmf_message_to_dict m = Inr d"
  then show p: "d_progress d = round2 (fmul (lxm_progress m) 100)"
    by (auto simp: convert_lxmf_message_to_dict_def progress_percentage_def split: sum.splits)
  have "\<bar>fmul (lxm_progress m) 100 * 100 - of_int (rhe (fmul (lxm_progress m) 100 * 100))\<bar>
      \<le> 1 / 2"
    by (rule rhe_near)
  then show "\<exists>k::int. d_progress d = fl (of_int k / 100)
      \<and> \<bar>fmul (lxm_progress m) 100 * 100 - of_int k\<bar> \<le> 1 / 2"
    unfolding p round2_def by blast
qed

theorem rendered_progress_is_percentage_witness:
  "convert_lxmf_message_to_dict example_message = Inr example_dict
   \<and> d_hash example_dict = ''abcd''
   \<and> lxm_progress example_message = fl (4567 / 10000)
   \<and> d_progress example_dict = fl (4567 / 100)
   \<and> d_progress example_dict = round2 (fmul (lxm_progress example_message) 100)"
proof -
  have a: "convert_lxmf_message_to_dict example_message = Inr example_dict"
    by code_simp
  have b: "d_hash example_dict = ''abcd''" "d_progress example_dict = fl (4567 / 100)"
    by (simp_all add: example_dict_def)
  have c: "lxm_progress example_message = fl (4567 / 10000)"
    by (simp add: example_message_def)
  show ?thesis
    using rendered_progress_is_percentage a b c by blast
qed

section \<open>Exceptions in the callbacks of the network layer\<close>

lemma on_lxmf_delivery_guarded: "snd (on_lxmf_delivery self message now) = None"
  by (simp add: on_lxmf_delivery_def split: prod.splits option.splits)

lemma received_announce_guarded: "snd (received_announce self dest app_data now) = None"
  by (simp add: received_announce_def split: prod.splits)

text \<open>
  Claim C6 does not hold of the code. \<open>on_lxmf_delivery\<close> catches every exception of its
  body (\<open>on_lxmf_delivery_guarded\<close>) and so does the announce handler
  (\<open>received_announce_guarded\<close>), but \<open>on_lxmf_sending_state_updated\<close> and
  \<open>on_lxmf_sending_failed\<close> have no handler: with a registered session whose transport is
  closing, the exception of the broadcast leaves the callback.
\<close>

theorem state_update_callback_lets_exception_escape:
  "snd (on_lxmf_sending_state_updated broken_chat example_message 1) = Some ConnectionResetError
   \<and> snd (on_lxmf_sending_failed broken_chat example_message 1) = Some ConnectionResetError
   \<and> snd (on_lxmf_delivery broken_chat example_message 1) = None"
proof -
  have "snd (on_lxmf_sending_state_updated broken_chat example_message 1)
      = Some ConnectionResetError"
    by (simp add: on_lxmf_sending_state_updated_def db_upsert_lxmf_message_def convert_example
        websocket_broadcast_def broken_chat_def example_chat_def send_str_def)
  then show ?thesis
    by (simp add: on_lxmf_sending_failed_def on_lxmf_delivery_guarded)
qed

text \<open>
  Claim C7 does not hold of the code. An announce whose application data is the byte \<open>0xFF\<close>
  raises in \<open>on_lxmf_announce_received\<close>, the announce handler swallows the exception, and
  no session receives any event; \<open>convert_app_data_to_string\<close>, used for the known-peers
  snapshot, turns the same bytes into \<open>None\<close>.
\<close>

theorem undecodable_announce_is_dropped:
  "received_announce example_chat [0x12, 0x34] (Some [0xFF]) 5 = (example_chat, None)
   \<and> convert_app_data_to_string (Some [0xFF]) = None"
  by (simp add: received_announce_def on_lxmf_announce_received_def decode_utf8_def
      convert_app_data_to_string_def)

lemma announce_example:
  "inbox (sessions (fst (received_announce example_chat [0x12, 0x34]
        (Some [0x41, 0x6C, 0x69, 0x63, 0x65]) 5)) 0)
   = [JDict [(''type'', JStr ''announce''),
             (''announce'', JDict [(''destination_hash'', JStr ''1234''),
                                   (''app_data'', JStr ''Alice''),
                                   (''last_announce_timestamp'', JNum 5)])]]"
  by code_simp

end
